theory Spec2Isabelle
  imports Main
begin

section \<open>The Stagehand extension background script as a state machine\<close>

text \<open>
  The development embeds \<^verbatim>\<open>chrome_extension/background.js\<close>. The script is a set of
  handlers over four module-level variables (\<^verbatim>\<open>serverWs\<close>, \<^verbatim>\<open>reconnectAttempts\<close>,
  \<^verbatim>\<open>activeSessions\<close>, \<^verbatim>\<open>cdpEventListeners\<close>). Each handler becomes a function from
  the state to the new state (and a result); what a handler does to the outside world
  (frames written to the socket, timers set, Chrome API calls, listeners added to
  \<^verbatim>\<open>chrome.debugger.onEvent\<close>, lines written with \<^verbatim>\<open>console.error\<close>) is recorded in
  trace fields of the state.

  Modelling decisions:
  \<^item> A handler runs to completion: an \<^verbatim>\<open>await\<close> does not let another handler in.
  \<^item> The Chrome APIs are a parameter \<open>env\<close>. Every reply may depend on the list of
    calls made so far, so one \<open>env\<close> stands for an arbitrary deterministic browser.
    A rejected promise or a thrown exception is \<open>Inl\<close> of the error's message.
  \<^item> Values used as \<^verbatim>\<open>Map\<close> keys (tab ids, event names, listener ids) are JavaScript
    primitives; a number is an integer whose \<^verbatim>\<open>String(n)\<close> is its decimal numeral.
  \<^item> \<^verbatim>\<open>Date.now()\<close> timestamps and \<^verbatim>\<open>error.stack\<close> are left out of the frames.
  \<^item> Of a \<^verbatim>\<open>console.error\<close> call the first argument is recorded; \<^verbatim>\<open>console.log\<close>
    is not.
\<close>

subsection \<open>Values\<close>

datatype jsprim = JUndefined | JNull | JBool bool | JNum int | JStr string

datatype json = JPrim jsprim | JArr "json list" | JObj "(string \<times> json) list"

datatype readyState = CONNECTING | OPEN | CLOSING | CLOSED

text \<open>String conversion inside a template literal.\<close>

fun digits :: "nat \<Rightarrow> string" where
  "digits n = (if n < 10 then [''0123456789'' ! n]
               else digits (n div 10) @ [''0123456789'' ! (n mod 10)])"

fun template :: "jsprim \<Rightarrow> string" where
  "template JUndefined = ''undefined''"
| "template JNull = ''null''"
| "template (JBool b) = (if b then ''true'' else ''false'')"
| "template (JNum i) = (if i < 0 then ''-'' @ digits (nat (- i)) else digits (nat i))"
| "template (JStr s) = s"

text \<open>The entries of \<^verbatim>\<open>activeSessions\<close>: \<^verbatim>\<open>{attached, listeners}\<close>. A listener is a
  closure over the tab id it was created for; the set holds one entry per closure.\<close>

record session =
  attached :: bool
  listeners :: "jsprim list"

text \<open>Frames handed to \<^verbatim>\<open>serverWs.send\<close>. A \<^verbatim>\<open>RESPONSE\<close> carries \<^verbatim>\<open>id\<close> and either
  \<^verbatim>\<open>result\<close> with \<^verbatim>\<open>success: true\<close> (\<open>Inr\<close>) or \<^verbatim>\<open>error\<close> with \<^verbatim>\<open>success: false\<close>
  (\<open>Inl\<close>).\<close>

datatype server_msg =
    EXTENSION_READY
  | RESPONSE json "string + json"
  | CDP_EVENT jsprim jsprim json
  | DEBUGGER_DETACHED jsprim json
  | TAB_CLOSED jsprim
  | PING

text \<open>Calls into the browser, in the order they are made.\<close>

datatype api_call =
    NewWebSocket
  | TabsQuery bool
  | TabsGet jsprim
  | TabsCreate json
  | TabsUpdate jsprim json
  | TabsRemove jsprim
  | DebuggerAttach jsprim
  | DebuggerDetach jsprim
  | DebuggerSendCommand jsprim jsprim json
  | ExecuteScript jsprim bool json json
  | NewFunction json
  | WaitNavigation jsprim json json
  | CookiesSet json
  | CookiesGetAll json

record tab =
  tab_id :: json
  tab_url :: json
  tab_title :: json
  tab_active :: json
  tab_index :: json

record chrome_api =
  new_WebSocket :: "api_call list \<Rightarrow> string + unit"
  tabs_query :: "api_call list \<Rightarrow> bool \<Rightarrow> string + tab list"
  tabs_get :: "api_call list \<Rightarrow> jsprim \<Rightarrow> string + tab"
  tabs_create :: "api_call list \<Rightarrow> json \<Rightarrow> string + tab"
  tabs_update :: "api_call list \<Rightarrow> jsprim \<Rightarrow> json \<Rightarrow> string + unit"
  tabs_remove :: "api_call list \<Rightarrow> jsprim \<Rightarrow> string + unit"
  debugger_attach :: "api_call list \<Rightarrow> jsprim \<Rightarrow> string + unit"
  debugger_detach :: "api_call list \<Rightarrow> jsprim \<Rightarrow> string + unit"
  debugger_sendCommand :: "api_call list \<Rightarrow> jsprim \<Rightarrow> jsprim \<Rightarrow> json \<Rightarrow> string + json"
  scripting_executeScript :: "api_call list \<Rightarrow> jsprim \<Rightarrow> bool \<Rightarrow> json \<Rightarrow> json \<Rightarrow> string + json list"
  new_Function :: "api_call list \<Rightarrow> json \<Rightarrow> string + unit"
  navigation_completed :: "api_call list \<Rightarrow> jsprim \<Rightarrow> json \<Rightarrow> json \<Rightarrow> bool"
  cookies_set :: "api_call list \<Rightarrow> json \<Rightarrow> string + unit"
  cookies_getAll :: "api_call list \<Rightarrow> json \<Rightarrow> string + json"

subsection \<open>The state\<close>

record state =
  serverWs :: "readyState option"
  reconnectAttempts :: nat
  activeSessions :: "jsprim \<rightharpoonup> session"
  cdpEventListeners :: "jsprim \<rightharpoonup> (jsprim \<rightharpoonup> jsprim list)"
  sent :: "server_msg list"
  console_error :: "string list"
  scheduled :: "nat list"
  onEvent :: "jsprim list"
  calls :: "api_call list"

definition MAX_RECONNECT_ATTEMPTS :: nat where
  "MAX_RECONNECT_ATTEMPTS = 5"

definition initial_state :: state where
  "initial_state = \<lparr>serverWs = None, reconnectAttempts = 0, activeSessions = Map.empty,
     cdpEventListeners = Map.empty, sent = [], console_error = [], scheduled = [],
     onEvent = [], calls = []\<rparr>"

text \<open>One call into the browser: the call is appended to the trace, the reply is read
  from the environment at the trace before the call.\<close>

definition chrome :: "state \<Rightarrow> api_call \<Rightarrow> (api_call list \<Rightarrow> 'r) \<Rightarrow> state \<times> 'r" where
  "chrome s c reply = (s\<lparr>calls := calls s @ [c]\<rparr>, reply (calls s))"

text \<open>\<^verbatim>\<open>Set.prototype.add\<close> and \<^verbatim>\<open>Set.prototype.delete\<close> on an insertion-ordered set.\<close>

definition set_add :: "'a \<Rightarrow> 'a list \<Rightarrow> 'a list" where
  "set_add x xs = (if x \<in> set xs then xs else xs @ [x])"

definition set_delete :: "'a \<Rightarrow> 'a list \<Rightarrow> 'a list" where
  "set_delete x xs = removeAll x xs"

text \<open>An object literal with primitive fields.\<close>

definition obj :: "(string \<times> jsprim) list \<Rightarrow> json" where
  "obj kvs = JObj (map (\<lambda>(k, v). (k, JPrim v)) kvs)"

subsection \<open>Connection to the server\<close>

definition sendToServer :: "state \<Rightarrow> server_msg \<Rightarrow> state" where
  "sendToServer s message =
     (if serverWs s = Some OPEN then s\<lparr>sent := sent s @ [message]\<rparr>
      else s\<lparr>console_error := console_error s @ [''[Stagehand] Cannot send message - server not connected'']\<rparr>)"

definition connectToServer :: "chrome_api \<Rightarrow> state \<Rightarrow> state" where
  "connectToServer env s =
     (if serverWs s = Some OPEN \<or> serverWs s = Some CONNECTING then s
      else (case chrome s NewWebSocket (new_WebSocket env) of
              (s1, Inr _) \<Rightarrow> s1\<lparr>serverWs := Some CONNECTING\<rparr>
            | (s1, Inl e) \<Rightarrow> s1\<lparr>console_error := console_error s1 @ [''[Stagehand] Error creating WebSocket:'']\<rparr>))"

text \<open>\<^verbatim>\<open>serverWs.onopen\<close>: the socket has reached \<^verbatim>\<open>OPEN\<close>.\<close>

definition ws_onopen :: "state \<Rightarrow> state" where
  "ws_onopen s = sendToServer (s\<lparr>serverWs := Some OPEN, reconnectAttempts := 0\<rparr>) EXTENSION_READY"

text \<open>\<^verbatim>\<open>serverWs.onclose\<close>; \<open>scheduled\<close> records each \<^verbatim>\<open>setTimeout(connectToServer, delay)\<close>.\<close>

definition reconnect_delay :: "nat \<Rightarrow> nat" where
  "reconnect_delay attempts = min (1000 * 2 ^ attempts) 10000"

definition ws_onclose :: "state \<Rightarrow> state" where
  "ws_onclose s =
     (let s1 = s\<lparr>serverWs := None\<rparr> in
      if reconnectAttempts s1 < MAX_RECONNECT_ATTEMPTS then
        (let s2 = s1\<lparr>reconnectAttempts := reconnectAttempts s1 + 1\<rparr>;
             delay = reconnect_delay (reconnectAttempts s2)
         in s2\<lparr>scheduled := scheduled s2 @ [delay]\<rparr>)
      else s1)"

text \<open>The keep-alive interval callback.\<close>

definition keepAlive :: "state \<Rightarrow> state" where
  "keepAlive s = (if serverWs s = Some OPEN then sendToServer s PING else s)"

subsection \<open>Debugger sessions\<close>

definition is_attached :: "state \<Rightarrow> jsprim \<Rightarrow> bool" where
  "is_attached s tabId = (case activeSessions s tabId of None \<Rightarrow> False | Some se \<Rightarrow> attached se)"

text \<open>The closure created by \<^verbatim>\<open>setupCDPEventForwarding(tabId)\<close>.\<close>

definition cdp_listener :: "jsprim \<Rightarrow> state \<Rightarrow> jsprim \<Rightarrow> jsprim \<Rightarrow> json \<Rightarrow> state" where
  "cdp_listener tabId s source_tabId method params =
     (if source_tabId = tabId then
        (case cdpEventListeners s tabId of
           None \<Rightarrow> s
         | Some tabListeners \<Rightarrow>
             (if tabListeners method \<noteq> None then sendToServer s (CDP_EVENT tabId method params)
              else s))
      else s)"

definition setupCDPEventForwarding :: "state \<Rightarrow> jsprim \<Rightarrow> state" where
  "setupCDPEventForwarding s tabId =
     (let s1 = (if activeSessions s tabId = None
                then s\<lparr>activeSessions := (activeSessions s)(tabId \<mapsto> \<lparr>attached = True, listeners = []\<rparr>)\<rparr>
                else s);
          s2 = (case activeSessions s1 tabId of
                  None \<Rightarrow> s1
                | Some se \<Rightarrow> s1\<lparr>activeSessions :=
                     (activeSessions s1)(tabId \<mapsto> se\<lparr>listeners := listeners se @ [tabId]\<rparr>)\<rparr>)
      in s2\<lparr>onEvent := onEvent s2 @ [tabId]\<rparr>)"

definition attachDebugger :: "chrome_api \<Rightarrow> state \<Rightarrow> jsprim \<Rightarrow> state \<times> (string + json)" where
  "attachDebugger env s tabId =
     (if is_attached s tabId then
        (s, Inr (obj [(''attached'', JBool True), (''alreadyAttached'', JBool True)]))
      else
        (case chrome s (DebuggerAttach tabId) (\<lambda>h. debugger_attach env h tabId) of
           (s1, Inl e) \<Rightarrow>
             (s1\<lparr>console_error := console_error s1 @ [''[Stagehand] Failed to attach debugger to tab '' @ template tabId @ '':'']\<rparr>, Inl e)
         | (s1, Inr _) \<Rightarrow>
             (let s2 = s1\<lparr>activeSessions := (activeSessions s1)(tabId \<mapsto> \<lparr>attached = True, listeners = []\<rparr>)\<rparr>
              in (setupCDPEventForwarding s2 tabId, Inr (obj [(''attached'', JBool True)])))))"

definition detachDebugger :: "chrome_api \<Rightarrow> state \<Rightarrow> jsprim \<Rightarrow> state \<times> (string + json)" where
  "detachDebugger env s tabId =
     (if \<not> is_attached s tabId then
        (s, Inr (obj [(''detached'', JBool False), (''reason'', JStr ''Not attached'')]))
      else
        (case chrome s (DebuggerDetach tabId) (\<lambda>h. debugger_detach env h tabId) of
           (s1, Inl e) \<Rightarrow>
             (s1\<lparr>console_error := console_error s1 @ [''[Stagehand] Failed to detach debugger from tab '' @ template tabId @ '':'']\<rparr>, Inl e)
         | (s1, Inr _) \<Rightarrow>
             (s1\<lparr>activeSessions := (activeSessions s1)(tabId := None),
                  cdpEventListeners := (cdpEventListeners s1)(tabId := None)\<rparr>,
              Inr (obj [(''detached'', JBool True)]))))"

text \<open>\<^verbatim>\<open>sendCDPCommand(tabId, method, params = {})\<close>: the default applies to a missing
  (undefined) \<^verbatim>\<open>params\<close>. A failed attach is caught by the function's own handler,
  logged there a second time and rethrown.\<close>

definition sendCDPCommand :: "chrome_api \<Rightarrow> state \<Rightarrow> jsprim \<Rightarrow> jsprim \<Rightarrow> json \<Rightarrow> state \<times> (string + json)" where
  "sendCDPCommand env s tabId method params0 =
     (let params = (if params0 = JPrim JUndefined then JObj [] else params0);
          (s1, a) = (if \<not> is_attached s tabId then attachDebugger env s tabId else (s, Inr (JPrim JUndefined)))
      in case a of
           Inl e \<Rightarrow> (s1\<lparr>console_error := console_error s1 @ [''[Stagehand] CDP command failed ('' @ template method @ ''):'']\<rparr>, Inl e)
         | Inr _ \<Rightarrow>
             (case chrome s1 (DebuggerSendCommand tabId method params)
                     (\<lambda>h. debugger_sendCommand env h tabId method params) of
                (s2, Inl e) \<Rightarrow> (s2\<lparr>console_error := console_error s2 @ [''[Stagehand] CDP command failed ('' @ template method @ ''):'']\<rparr>, Inl e)
              | (s2, Inr result) \<Rightarrow> (s2, Inr result)))"

subsection \<open>The subscription registry\<close>

definition registerCDPListener :: "state \<Rightarrow> jsprim \<Rightarrow> jsprim \<Rightarrow> jsprim \<Rightarrow> state \<times> (string + json)" where
  "registerCDPListener s tabId eventName listenerId =
     (let tabListeners = (case cdpEventListeners s tabId of None \<Rightarrow> Map.empty | Some m \<Rightarrow> m);
          ls = (case tabListeners eventName of None \<Rightarrow> [] | Some l \<Rightarrow> l)
      in (s\<lparr>cdpEventListeners :=
              (cdpEventListeners s)(tabId \<mapsto> tabListeners(eventName \<mapsto> set_add listenerId ls))\<rparr>,
          Inr (obj [(''registered'', JBool True)])))"

definition unregisterCDPListener :: "state \<Rightarrow> jsprim \<Rightarrow> jsprim \<Rightarrow> jsprim \<Rightarrow> state \<times> (string + json)" where
  "unregisterCDPListener s tabId eventName listenerId =
     (let s1 =
        (case cdpEventListeners s tabId of
           None \<Rightarrow> s
         | Some tabListeners \<Rightarrow>
             (case tabListeners eventName of
                None \<Rightarrow> s
              | Some ls \<Rightarrow>
                  (let ls1 = set_delete listenerId ls in
                   if length ls1 = 0
                   then s\<lparr>cdpEventListeners := (cdpEventListeners s)(tabId \<mapsto> tabListeners(eventName := None))\<rparr>
                   else s\<lparr>cdpEventListeners := (cdpEventListeners s)(tabId \<mapsto> tabListeners(eventName \<mapsto> ls1))\<rparr>)))
      in (s1, Inr (obj [(''unregistered'', JBool True)])))"

subsection \<open>Browser events\<close>

text \<open>\<^verbatim>\<open>chrome.debugger.onEvent\<close> runs every listener that was added, in order.\<close>

definition debugger_onEvent :: "state \<Rightarrow> jsprim \<Rightarrow> jsprim \<Rightarrow> json \<Rightarrow> state" where
  "debugger_onEvent s source_tabId method params =
     foldl (\<lambda>s' tabId. cdp_listener tabId s' source_tabId method params) s (onEvent s)"

definition debugger_onDetach :: "state \<Rightarrow> jsprim \<Rightarrow> json \<Rightarrow> state" where
  "debugger_onDetach s source_tabId reason =
     (if activeSessions s source_tabId \<noteq> None then
        sendToServer
          (s\<lparr>activeSessions := (activeSessions s)(source_tabId := None),
             cdpEventListeners := (cdpEventListeners s)(source_tabId := None)\<rparr>)
          (DEBUGGER_DETACHED source_tabId reason)
      else s)"

definition tabs_onRemoved :: "state \<Rightarrow> jsprim \<Rightarrow> state" where
  "tabs_onRemoved s tabId =
     (if activeSessions s tabId \<noteq> None then
        sendToServer
          (s\<lparr>activeSessions := (activeSessions s)(tabId := None),
             cdpEventListeners := (cdpEventListeners s)(tabId := None)\<rparr>)
          (TAB_CLOSED tabId)
      else s)"

subsection \<open>Inbound messages\<close>

text \<open>The fields of a parsed frame that the script reads; a missing field is
  \<^verbatim>\<open>undefined\<close>.\<close>

record message =
  msg_id :: json
  msg_type :: jsprim
  msg_tabId :: jsprim
  msg_method :: jsprim
  msg_params :: json
  msg_script :: json
  msg_args :: json
  msg_url :: json
  msg_options :: json
  msg_cookies :: json
  msg_eventName :: jsprim
  msg_listenerId :: jsprim

text \<open>Truthiness, property access and iteration of a parsed JSON value. Reading a
  property of \<^verbatim>\<open>undefined\<close> or \<^verbatim>\<open>null\<close> and iterating a non-iterable throw a
  TypeError, whose engine-specific message is abbreviated.\<close>

fun truthy :: "json \<Rightarrow> bool" where
  "truthy (JPrim JUndefined) = False"
| "truthy (JPrim JNull) = False"
| "truthy (JPrim (JBool b)) = b"
| "truthy (JPrim (JNum n)) = (n \<noteq> 0)"
| "truthy (JPrim (JStr s)) = (s \<noteq> [])"
| "truthy (JArr _) = True"
| "truthy (JObj _) = True"

fun get_prop :: "json \<Rightarrow> string \<Rightarrow> string + json" where
  "get_prop (JPrim JUndefined) k = Inl ''TypeError''"
| "get_prop (JPrim JNull) k = Inl ''TypeError''"
| "get_prop (JObj kvs) k = Inr (case map_of (rev kvs) k of None \<Rightarrow> JPrim JUndefined | Some v \<Rightarrow> v)"
| "get_prop _ k = Inr (JPrim JUndefined)"

fun iterate :: "json \<Rightarrow> string + json list" where
  "iterate (JArr xs) = Inr xs"
| "iterate (JPrim (JStr s)) = Inr (map (\<lambda>c. JPrim (JStr [c])) s)"
| "iterate _ = Inl ''TypeError''"

subsection \<open>Tab, script and cookie handlers\<close>

definition getActiveTab :: "chrome_api \<Rightarrow> state \<Rightarrow> state \<times> (string + json)" where
  "getActiveTab env s =
     (case chrome s (TabsQuery True) (\<lambda>h. tabs_query env h True) of
        (s1, Inl e) \<Rightarrow> (s1, Inl e)
      | (s1, Inr []) \<Rightarrow> (s1, Inl ''No active tab found'')
      | (s1, Inr (t # _)) \<Rightarrow>
          (s1, Inr (JObj [(''tabId'', tab_id t), (''url'', tab_url t), (''title'', tab_title t)])))"

definition evaluateScript :: "chrome_api \<Rightarrow> state \<Rightarrow> jsprim \<Rightarrow> json \<Rightarrow> json \<Rightarrow> state \<times> (string + json)" where
  "evaluateScript env s tabId script args0 =
     (let args = (if args0 = JPrim JUndefined then JArr [] else args0) in
      case chrome s (ExecuteScript tabId False script args)
             (\<lambda>h. scripting_executeScript env h tabId False script args) of
        (s1, Inl e) \<Rightarrow>
          (s1\<lparr>console_error := console_error s1 @ [''[Stagehand] Script evaluation failed:'']\<rparr>, Inl e)
      | (s1, Inr []) \<Rightarrow> (s1, Inr (JPrim JNull))
      | (s1, Inr (r # _)) \<Rightarrow> (s1, Inr r))"

text \<open>\<^verbatim>\<open>waitForNavigation\<close> settles either by a matching \<^verbatim>\<open>onCompleted\<close> event, which it
  accepts for the four known \<^verbatim>\<open>waitUntil\<close> values only, or by its timer.\<close>

definition waitForNavigation :: "chrome_api \<Rightarrow> state \<Rightarrow> jsprim \<Rightarrow> json \<Rightarrow> json \<Rightarrow> state \<times> (string + unit)" where
  "waitForNavigation env s tabId waitUntil0 timeout0 =
     (let waitUntil = (if waitUntil0 = JPrim JUndefined then JPrim (JStr ''load'') else waitUntil0);
          timeout = (if timeout0 = JPrim JUndefined then JPrim (JNum 30000) else timeout0)
      in chrome s (WaitNavigation tabId waitUntil timeout)
           (\<lambda>h. if waitUntil \<in> set (map (\<lambda>w. JPrim (JStr w)) [''commit'', ''domcontentloaded'', ''load'', ''networkidle''])
                    \<and> navigation_completed env h tabId waitUntil timeout
                 then Inr () else Inl ''Navigation timeout''))"

definition navigateTo :: "chrome_api \<Rightarrow> state \<Rightarrow> jsprim \<Rightarrow> json \<Rightarrow> json \<Rightarrow> state \<times> (string + json)" where
  "navigateTo env s tabId url options0 =
     (let options = (if options0 = JPrim JUndefined then JObj [] else options0);
          failed = (\<lambda>s' e. (s'\<lparr>console_error := console_error s' @ [''[Stagehand] Navigation failed:'']\<rparr>, Inl e));
          done = (\<lambda>s'. (s', Inr (JObj [(''navigated'', JPrim (JBool True)), (''url'', url)])))
      in case chrome s (TabsUpdate tabId url) (\<lambda>h. tabs_update env h tabId url) of
           (s1, Inl e) \<Rightarrow> failed s1 e
         | (s1, Inr _) \<Rightarrow>
             (case get_prop options ''waitUntil'' of
                Inl e \<Rightarrow> failed s1 e
              | Inr waitUntil \<Rightarrow>
                  (if truthy waitUntil then
                     (case get_prop options ''timeout'' of
                        Inl e \<Rightarrow> failed s1 e
                      | Inr timeout \<Rightarrow>
                          (case waitForNavigation env s1 tabId waitUntil timeout of
                             (s2, Inl e) \<Rightarrow> failed s2 e
                           | (s2, Inr _) \<Rightarrow> done s2))
                   else done s1)))"

definition createTab :: "chrome_api \<Rightarrow> state \<Rightarrow> json \<Rightarrow> state \<times> (string + json)" where
  "createTab env s url0 =
     (let url = (if truthy url0 then url0 else JPrim (JStr ''about:blank'')) in
      case chrome s (TabsCreate url) (\<lambda>h. tabs_create env h url) of
        (s1, Inl e) \<Rightarrow> (s1, Inl e)
      | (s1, Inr t) \<Rightarrow>
          (s1, Inr (JObj [(''tabId'', tab_id t), (''url'', tab_url t), (''title'', tab_title t)])))"

definition closeTab :: "chrome_api \<Rightarrow> state \<Rightarrow> jsprim \<Rightarrow> state \<times> (string + json)" where
  "closeTab env s tabId =
     (case chrome s (TabsRemove tabId) (\<lambda>h. tabs_remove env h tabId) of
        (s1, Inl e) \<Rightarrow> (s1, Inl e)
      | (s1, Inr _) \<Rightarrow>
          (if activeSessions s1 tabId \<noteq> None then
             (case detachDebugger env s1 tabId of
                (s2, Inl e) \<Rightarrow> (s2, Inl e)
              | (s2, Inr _) \<Rightarrow> (s2, Inr (obj [(''closed'', JBool True)])))
           else (s1, Inr (obj [(''closed'', JBool True)]))))"

definition tab_info :: "tab \<Rightarrow> json" where
  "tab_info t = JObj [(''tabId'', tab_id t), (''url'', tab_url t), (''title'', tab_title t),
                      (''active'', tab_active t), (''index'', tab_index t)]"

definition getTabInfo :: "chrome_api \<Rightarrow> state \<Rightarrow> jsprim \<Rightarrow> state \<times> (string + json)" where
  "getTabInfo env s tabId =
     (case chrome s (TabsGet tabId) (\<lambda>h. tabs_get env h tabId) of
        (s1, Inl e) \<Rightarrow> (s1, Inl e)
      | (s1, Inr t) \<Rightarrow> (s1, Inr (tab_info t)))"

definition getAllTabs :: "chrome_api \<Rightarrow> state \<Rightarrow> state \<times> (string + json)" where
  "getAllTabs env s =
     (case chrome s (TabsQuery False) (\<lambda>h. tabs_query env h False) of
        (s1, Inl e) \<Rightarrow> (s1, Inl e)
      | (s1, Inr tabs) \<Rightarrow> (s1, Inr (JArr (map tab_info tabs))))"

text \<open>The loop of \<^verbatim>\<open>setCookies\<close>: a cookie that cannot be set is reported in the
  results, the loop goes on.\<close>

fun setCookies_loop :: "chrome_api \<Rightarrow> state \<Rightarrow> json list \<Rightarrow> json list \<Rightarrow> state \<times> json list" where
  "setCookies_loop env s [] results = (s, results)"
| "setCookies_loop env s (cookie # cookies) results =
     (case chrome s (CookiesSet cookie) (\<lambda>h. cookies_set env h cookie) of
        (s1, Inr _) \<Rightarrow>
          setCookies_loop env s1 cookies
            (results @ [JObj [(''success'', JPrim (JBool True)), (''cookie'', cookie)]])
      | (s1, Inl e) \<Rightarrow>
          setCookies_loop env s1 cookies
            (results @ [JObj [(''success'', JPrim (JBool False)), (''cookie'', cookie),
                              (''error'', JPrim (JStr e))]]))"

definition setCookies :: "chrome_api \<Rightarrow> state \<Rightarrow> json \<Rightarrow> state \<times> (string + json)" where
  "setCookies env s cookies =
     (case iterate cookies of
        Inl e \<Rightarrow> (s, Inl e)
      | Inr cs \<Rightarrow> (case setCookies_loop env s cs [] of (s1, results) \<Rightarrow> (s1, Inr (JArr results))))"

definition getCookies :: "chrome_api \<Rightarrow> state \<Rightarrow> json \<Rightarrow> state \<times> (string + json)" where
  "getCookies env s url = chrome s (CookiesGetAll url) (\<lambda>h. cookies_getAll env h url)"

definition injectScript :: "chrome_api \<Rightarrow> state \<Rightarrow> jsprim \<Rightarrow> json \<Rightarrow> state \<times> (string + json)" where
  "injectScript env s tabId script =
     (let failed = (\<lambda>s' e. (s'\<lparr>console_error := console_error s' @ [''[Stagehand] Script injection failed:'']\<rparr>, Inl e))
      in case chrome s (NewFunction script) (\<lambda>h. new_Function env h script) of
           (s1, Inl e) \<Rightarrow> failed s1 e
         | (s1, Inr _) \<Rightarrow>
             (case chrome s1 (ExecuteScript tabId True script (JPrim JUndefined))
                     (\<lambda>h. scripting_executeScript env h tabId True script (JPrim JUndefined)) of
                (s2, Inl e) \<Rightarrow> failed s2 e
              | (s2, Inr results) \<Rightarrow>
                  (s2, Inr (JObj [(''injected'', JPrim (JBool True)),
                                  (''results'', JPrim (JNum (int (length results))))]))))"

subsection \<open>The message dispatcher\<close>

text \<open>The \<^verbatim>\<open>switch\<close> of \<^verbatim>\<open>handleServerMessage\<close>: \<open>None\<close> is the \<^verbatim>\<open>return\<close> of the
  \<^verbatim>\<open>PONG\<close> case, \<open>Inl\<close> an exception thrown inside the \<^verbatim>\<open>try\<close>.\<close>

definition handleServerMessage_switch :: "chrome_api \<Rightarrow> state \<Rightarrow> message \<Rightarrow> (state \<times> (string + json)) option" where
  "handleServerMessage_switch env s message =
     (let type = msg_type message; tabId = msg_tabId message in
      if type = JStr ''GET_ACTIVE_TAB'' then Some (getActiveTab env s)
      else if type = JStr ''ATTACH_DEBUGGER'' then Some (attachDebugger env s tabId)
      else if type = JStr ''DETACH_DEBUGGER'' then Some (detachDebugger env s tabId)
      else if type = JStr ''CDP_COMMAND'' then
        Some (sendCDPCommand env s tabId (msg_method message) (msg_params message))
      else if type = JStr ''EVALUATE'' then
        Some (evaluateScript env s tabId (msg_script message) (msg_args message))
      else if type = JStr ''NAVIGATE'' then
        Some (navigateTo env s tabId (msg_url message) (msg_options message))
      else if type = JStr ''CREATE_TAB'' then Some (createTab env s (msg_url message))
      else if type = JStr ''CLOSE_TAB'' then Some (closeTab env s tabId)
      else if type = JStr ''GET_TAB_INFO'' then Some (getTabInfo env s tabId)
      else if type = JStr ''GET_ALL_TABS'' then Some (getAllTabs env s)
      else if type = JStr ''SET_COOKIES'' then Some (setCookies env s (msg_cookies message))
      else if type = JStr ''GET_COOKIES'' then Some (getCookies env s (msg_url message))
      else if type = JStr ''INJECT_SCRIPT'' then Some (injectScript env s tabId (msg_script message))
      else if type = JStr ''REGISTER_CDP_LISTENER'' then
        Some (registerCDPListener s tabId (msg_eventName message) (msg_listenerId message))
      else if type = JStr ''UNREGISTER_CDP_LISTENER'' then
        Some (unregisterCDPListener s tabId (msg_eventName message) (msg_listenerId message))
      else if type = JStr ''PONG'' then None
      else Some (s, Inl (''Unknown message type: '' @ template type)))"

definition handleServerMessage :: "chrome_api \<Rightarrow> state \<Rightarrow> message \<Rightarrow> state" where
  "handleServerMessage env s message =
     (case handleServerMessage_switch env s message of
        None \<Rightarrow> s
      | Some (s1, Inr result) \<Rightarrow> sendToServer s1 (RESPONSE (msg_id message) (Inr result))
      | Some (s1, Inl e) \<Rightarrow>
          sendToServer (s1\<lparr>console_error := console_error s1 @ [''[Stagehand] Error handling '' @ template (msg_type message) @ '':'']\<rparr>)
            (RESPONSE (msg_id message) (Inl e)))"

text \<open>\<^verbatim>\<open>serverWs.onmessage\<close>: \<open>None\<close> is a frame on which \<^verbatim>\<open>JSON.parse\<close> throws, or whose
  value cannot be destructured (\<^verbatim>\<open>null\<close>).\<close>

definition ws_onmessage :: "chrome_api \<Rightarrow> state \<Rightarrow> message option \<Rightarrow> state" where
  "ws_onmessage env s frame =
     (case frame of
        None \<Rightarrow> s\<lparr>console_error := console_error s @ [''[Stagehand] Error handling server message:'']\<rparr>
      | Some message \<Rightarrow> handleServerMessage env s message)"

subsection \<open>The script as an event-driven machine\<close>

datatype event =
    Startup
  | TimerFired
  | WsOpen
  | WsClose
  | WsMessage "message option"
  | KeepAliveTick
  | DebuggerEvent jsprim jsprim json
  | DebuggerDetach jsprim json
  | TabRemoved jsprim

fun step :: "chrome_api \<Rightarrow> state \<Rightarrow> event \<Rightarrow> state" where
  "step env s Startup = connectToServer env s"
| "step env s TimerFired = connectToServer env s"
| "step env s WsOpen = ws_onopen s"
| "step env s WsClose = ws_onclose s"
| "step env s (WsMessage frame) = ws_onmessage env s frame"
| "step env s KeepAliveTick = keepAlive s"
| "step env s (DebuggerEvent tabId method params) = debugger_onEvent s tabId method params"
| "step env s (DebuggerDetach tabId reason) = debugger_onDetach s tabId reason"
| "step env s (TabRemoved tabId) = tabs_onRemoved s tabId"

definition run :: "chrome_api \<Rightarrow> state \<Rightarrow> event list \<Rightarrow> state" where
  "run env s evs = foldl (step env) s evs"

text \<open>A browser in which every call succeeds, used to evaluate the script on concrete
  inputs.\<close>

definition blank_tab :: tab where
  "blank_tab = \<lparr>tab_id = JPrim (JNum 1), tab_url = JPrim (JStr ''about:blank''),
     tab_title = JPrim (JStr []), tab_active = JPrim (JBool True), tab_index = JPrim (JNum 0)\<rparr>"

definition chrome_ok :: chrome_api where
  "chrome_ok = \<lparr>new_WebSocket = (\<lambda>h. Inr ()),
     tabs_query = (\<lambda>h a. Inr [blank_tab]),
     tabs_get = (\<lambda>h t. Inr blank_tab),
     tabs_create = (\<lambda>h u. Inr blank_tab),
     tabs_update = (\<lambda>h t u. Inr ()),
     tabs_remove = (\<lambda>h t. Inr ()),
     debugger_attach = (\<lambda>h t. Inr ()),
     debugger_detach = (\<lambda>h t. Inr ()),
     debugger_sendCommand = (\<lambda>h t m p. Inr (JObj [])),
     scripting_executeScript = (\<lambda>h t a f x. Inr []),
     new_Function = (\<lambda>h f. Inr ()),
     navigation_completed = (\<lambda>h t w d. True),
     cookies_set = (\<lambda>h c. Inr ()),
     cookies_getAll = (\<lambda>h u. Inr (JArr []))\<rparr>"

subsection \<open>Notions used in the properties\<close>

text \<open>The subscribers registered for a (target, event name) pair.\<close>

definition subscribers :: "state \<Rightarrow> jsprim \<Rightarrow> jsprim \<Rightarrow> jsprim list" where
  "subscribers s tabId eventName =
     (case cdpEventListeners s tabId of
        None \<Rightarrow> []
      | Some tabListeners \<Rightarrow> (case tabListeners eventName of None \<Rightarrow> [] | Some ls \<Rightarrow> ls))"

text \<open>The registry never stores an empty subscriber set.\<close>

definition registry_ok :: "state \<Rightarrow> bool" where
  "registry_ok s =
     (\<forall>tabId tabListeners eventName.
        cdpEventListeners s tabId = Some tabListeners \<longrightarrow> tabListeners eventName \<noteq> Some [])"

text \<open>Every target with a session has a forwarding listener on
  \<^verbatim>\<open>chrome.debugger.onEvent\<close>.\<close>

definition listeners_installed :: "state \<Rightarrow> bool" where
  "listeners_installed s = (\<forall>tabId. activeSessions s tabId \<noteq> None \<longrightarrow> tabId \<in> set (onEvent s))"

text \<open>\<open>untouched s s'\<close>: only the traces of browser calls and of console lines differ.
  \<open>channel_kept s s'\<close>: the socket, the frames sent and the reconnect state are the same.\<close>

definition untouched :: "state \<Rightarrow> state \<Rightarrow> bool" where
  "untouched s s' =
     (serverWs s' = serverWs s \<and> reconnectAttempts s' = reconnectAttempts s \<and>
      activeSessions s' = activeSessions s \<and> cdpEventListeners s' = cdpEventListeners s \<and>
      sent s' = sent s \<and> scheduled s' = scheduled s \<and> onEvent s' = onEvent s)"

definition channel_kept :: "state \<Rightarrow> state \<Rightarrow> bool" where
  "channel_kept s s' =
     (serverWs s' = serverWs s \<and> reconnectAttempts s' = reconnectAttempts s \<and>
      sent s' = sent s \<and> scheduled s' = scheduled s)"

text \<open>The message types that the \<^verbatim>\<open>switch\<close> of \<^verbatim>\<open>handleServerMessage\<close> has a case for.\<close>

definition known_types :: "string list" where
  "known_types = [''GET_ACTIVE_TAB'', ''ATTACH_DEBUGGER'', ''DETACH_DEBUGGER'', ''CDP_COMMAND'',
     ''EVALUATE'', ''NAVIGATE'', ''CREATE_TAB'', ''CLOSE_TAB'', ''GET_TAB_INFO'', ''GET_ALL_TABS'',
     ''SET_COOKIES'', ''GET_COOKIES'', ''INJECT_SCRIPT'', ''REGISTER_CDP_LISTENER'',
     ''UNREGISTER_CDP_LISTENER'', ''PONG'']"

text \<open>Concrete inputs: a frame with only \<^verbatim>\<open>id\<close>, \<^verbatim>\<open>type\<close> and \<^verbatim>\<open>tabId\<close>; the state once
  the socket is open; the state once the debugger is attached to tab 7.\<close>

definition request :: "json \<Rightarrow> string \<Rightarrow> jsprim \<Rightarrow> message" where
  "request i ty t = \<lparr>msg_id = i, msg_type = JStr ty, msg_tabId = t, msg_method = JUndefined,
     msg_params = JPrim JUndefined, msg_script = JPrim JUndefined, msg_args = JPrim JUndefined,
     msg_url = JPrim JUndefined, msg_options = JPrim JUndefined, msg_cookies = JPrim JUndefined,
     msg_eventName = JUndefined, msg_listenerId = JUndefined\<rparr>"

definition open_state :: state where
  "open_state = run chrome_ok initial_state [Startup, WsOpen]"

definition attached_state :: state where
  "attached_state = fst (attachDebugger chrome_ok open_state (JNum 7))"

definition subscribed_state :: state where
  "subscribed_state = fst (registerCDPListener attached_state (JNum 7) (JStr ''load'') (JStr ''S''))"

text \<open>The invariant of the reachable states.\<close>

definition inv :: "state \<Rightarrow> bool" where
  "inv s = (registry_ok s \<and> listeners_installed s)"




text \<open>Two states that differ at most in the lines written to the console, and two
  results with such states and the same value.\<close>

definition agree :: "state \<Rightarrow> state \<Rightarrow> bool" where
  "agree s s' =
     (serverWs s = serverWs s' \<and> reconnectAttempts s = reconnectAttempts s' \<and>
      activeSessions s = activeSessions s' \<and> cdpEventListeners s = cdpEventListeners s' \<and>
      sent s = sent s' \<and> scheduled s = scheduled s' \<and> onEvent s = onEvent s' \<and>
      calls s = calls s')"

definition agree_result :: "state \<times> 'a \<Rightarrow> state \<times> 'a \<Rightarrow> bool" where
  "agree_result p p' = (agree (fst p) (fst p') \<and> snd p = snd p')"

section \<open>Frame properties of the handlers\<close>

lemma untouched_refl [simp]: "untouched s s"
  by (simp add: untouched_def)

lemma untouched_trans: "untouched s s1 \<Longrightarrow> untouched s1 s2 \<Longrightarrow> untouched s s2"
  by (simp add: untouched_def)

lemma untouched_channel: "untouched s s' \<Longrightarrow> channel_kept s s'"
  by (simp add: untouched_def channel_kept_def)

lemma channel_kept_refl [simp]: "channel_kept s s"
  by (simp add: channel_kept_def)

lemma untouched_getActiveTab: "untouched s (fst (getActiveTab env s))"
  by (simp add: getActiveTab_def chrome_def untouched_def split: sum.split list.split)

lemma untouched_evaluateScript: "untouched s (fst (evaluateScript env s t sc a))"
  by (simp add: evaluateScript_def chrome_def untouched_def Let_def split: sum.split list.split)

lemma untouched_navigateTo: "untouched s (fst (navigateTo env s t u opts))"
  by (simp add: navigateTo_def waitForNavigation_def chrome_def untouched_def Let_def
           split: sum.split prod.split)

lemma untouched_createTab: "untouched s (fst (createTab env s u))"
  by (simp add: createTab_def chrome_def untouched_def Let_def split: sum.split)

lemma untouched_getTabInfo: "untouched s (fst (getTabInfo env s t))"
  by (simp add: getTabInfo_def chrome_def untouched_def split: sum.split)

lemma untouched_getAllTabs: "untouched s (fst (getAllTabs env s))"
  by (simp add: getAllTabs_def chrome_def untouched_def split: sum.split)

lemma untouched_setCookies_loop: "untouched s (fst (setCookies_loop env s cs rs))"
proof (induction cs arbitrary: s rs)
  case Nil
  show ?case by simp
next
  case (Cons c cs)
  have "untouched s (s\<lparr>calls := calls s @ [CookiesSet c]\<rparr>)"
    by (simp add: untouched_def)
  then show ?case
    by (auto simp: chrome_def split: sum.split intro: untouched_trans [OF _ Cons.IH])
qed

lemma untouched_setCookies: "untouched s (fst (setCookies env s cookies))"
proof (cases "iterate cookies")
  case (Inl e)
  then show ?thesis by (simp add: setCookies_def)
next
  case (Inr cs)
  then have "fst (setCookies env s cookies) = fst (setCookies_loop env s cs [])"
    by (simp add: setCookies_def split: prod.split)
  then show ?thesis by (simp add: untouched_setCookies_loop)
qed

lemma untouched_getCookies: "untouched s (fst (getCookies env s u))"
  by (simp add: getCookies_def chrome_def untouched_def)

lemma untouched_injectScript: "untouched s (fst (injectScript env s t sc))"
  by (simp add: injectScript_def chrome_def untouched_def Let_def split: sum.split)

lemma channel_kept_attachDebugger: "channel_kept s (fst (attachDebugger env s t))"
  by (simp add: attachDebugger_def setupCDPEventForwarding_def chrome_def channel_kept_def Let_def
           split: sum.split option.split)

lemma channel_kept_detachDebugger: "channel_kept s (fst (detachDebugger env s t))"
  by (simp add: detachDebugger_def chrome_def channel_kept_def split: sum.split)

lemma channel_kept_sendCDPCommand: "channel_kept s (fst (sendCDPCommand env s t m p))"
  by (simp add: sendCDPCommand_def attachDebugger_def setupCDPEventForwarding_def chrome_def
        channel_kept_def Let_def split: sum.split option.split prod.split)

lemma channel_kept_closeTab: "channel_kept s (fst (closeTab env s t))"
  by (simp add: closeTab_def detachDebugger_def chrome_def channel_kept_def
           split: sum.split prod.split)

lemma channel_kept_register: "channel_kept s (fst (registerCDPListener s t e l))"
  by (simp add: registerCDPListener_def channel_kept_def Let_def)

lemma channel_kept_unregister: "channel_kept s (fst (unregisterCDPListener s t e l))"
  by (simp add: unregisterCDPListener_def channel_kept_def Let_def split: option.split)

lemmas untouched_handlers =
  untouched_getActiveTab untouched_evaluateScript untouched_navigateTo untouched_createTab
  untouched_getTabInfo untouched_getAllTabs untouched_setCookies untouched_getCookies
  untouched_injectScript

lemmas channel_kept_handlers =
  channel_kept_attachDebugger channel_kept_detachDebugger channel_kept_sendCDPCommand
  channel_kept_closeTab channel_kept_register channel_kept_unregister
  untouched_handlers [THEN untouched_channel]

lemma channel_kept_result: "channel_kept s (fst p) \<Longrightarrow> p = (s1, r) \<Longrightarrow> channel_kept s s1"
  by simp

lemma channel_kept_switch:
  "handleServerMessage_switch env s m = Some (s1, r) \<Longrightarrow> channel_kept s s1"
  by (auto simp: handleServerMessage_switch_def Let_def split: if_splits
           dest: channel_kept_handlers [THEN channel_kept_result])

section \<open>The invariant\<close>

lemma inv_untouched: "untouched s s' \<Longrightarrow> inv s \<Longrightarrow> inv s'"
  by (simp add: untouched_def inv_def registry_ok_def listeners_installed_def)

lemma inv_initial: "inv initial_state"
  by (simp add: inv_def registry_ok_def listeners_installed_def initial_state_def)

lemma inv_sendToServer: "inv s \<Longrightarrow> inv (sendToServer s m)"
  by (simp add: sendToServer_def inv_def registry_ok_def listeners_installed_def)

lemma inv_console: "inv s \<Longrightarrow> inv (s\<lparr>console_error := c\<rparr>)"
  by (simp add: inv_def registry_ok_def listeners_installed_def)

lemma inv_attachDebugger: "inv s \<Longrightarrow> inv (fst (attachDebugger env s t))"
  by (simp add: attachDebugger_def setupCDPEventForwarding_def chrome_def Let_def
        inv_def registry_ok_def listeners_installed_def split: sum.split option.split)

lemma inv_detachDebugger: "inv s \<Longrightarrow> inv (fst (detachDebugger env s t))"
  by (simp add: detachDebugger_def chrome_def inv_def registry_ok_def listeners_installed_def
        split: sum.split)

lemma inv_sendCDPCommand: "inv s \<Longrightarrow> inv (fst (sendCDPCommand env s t m p))"
  by (simp add: sendCDPCommand_def attachDebugger_def setupCDPEventForwarding_def chrome_def Let_def
        inv_def registry_ok_def listeners_installed_def split: sum.split option.split prod.split)

lemma inv_closeTab: "inv s \<Longrightarrow> inv (fst (closeTab env s t))"
  by (simp add: closeTab_def detachDebugger_def chrome_def
        inv_def registry_ok_def listeners_installed_def split: sum.split prod.split)

lemma set_add_nonempty: "set_add x xs \<noteq> []"
  by (auto simp: set_add_def)

lemma set_add_idem: "set_add x (set_add x xs) = set_add x xs"
  by (simp add: set_add_def)

lemma inv_register: "inv s \<Longrightarrow> inv (fst (registerCDPListener s t e l))"
  by (auto simp: registerCDPListener_def Let_def set_add_nonempty
        inv_def registry_ok_def listeners_installed_def split: option.split)

lemma inv_unregister: "inv s \<Longrightarrow> inv (fst (unregisterCDPListener s t e l))"
  by (auto simp: unregisterCDPListener_def Let_def
        inv_def registry_ok_def listeners_installed_def split: option.split)

lemmas inv_handlers =
  inv_attachDebugger inv_detachDebugger inv_sendCDPCommand inv_closeTab inv_register
  inv_unregister untouched_handlers [THEN inv_untouched]

lemma inv_result: "inv (fst p) \<Longrightarrow> p = (s1, r) \<Longrightarrow> inv s1"
  by simp

lemma inv_switch: "inv s \<Longrightarrow> handleServerMessage_switch env s m = Some (s1, r) \<Longrightarrow> inv s1"
  by (auto simp: handleServerMessage_switch_def Let_def split: if_splits
           dest: inv_handlers [THEN inv_result])

lemma inv_handleServerMessage: "inv s \<Longrightarrow> inv (handleServerMessage env s m)"
  by (auto simp: handleServerMessage_def split: option.split sum.split
           intro!: inv_sendToServer inv_console dest: inv_switch)

lemma inv_cdp_listener: "inv s \<Longrightarrow> inv (cdp_listener t s src m p)"
  by (simp add: cdp_listener_def inv_sendToServer split: option.split)

lemma inv_debugger_onEvent_fold:
  "inv s \<Longrightarrow> inv (foldl (\<lambda>s' tabId. cdp_listener tabId s' src m p) s ts)"
  by (induction ts arbitrary: s) (simp_all add: inv_cdp_listener)

lemma inv_connectToServer: "inv s \<Longrightarrow> inv (connectToServer env s)"
  by (simp add: connectToServer_def chrome_def inv_def registry_ok_def listeners_installed_def
        split: sum.split)

lemma inv_ws_onopen: "inv s \<Longrightarrow> inv (ws_onopen s)"
  by (simp add: ws_onopen_def sendToServer_def inv_def registry_ok_def listeners_installed_def)

lemma inv_ws_onclose: "inv s \<Longrightarrow> inv (ws_onclose s)"
  by (simp add: ws_onclose_def Let_def inv_def registry_ok_def listeners_installed_def)

lemma inv_ws_onmessage: "inv s \<Longrightarrow> inv (ws_onmessage env s frame)"
  by (simp add: ws_onmessage_def inv_console inv_handleServerMessage split: option.split)

lemma inv_keepAlive: "inv s \<Longrightarrow> inv (keepAlive s)"
  by (simp add: keepAlive_def inv_sendToServer)

lemma inv_debugger_onDetach: "inv s \<Longrightarrow> inv (debugger_onDetach s t reason)"
  by (simp add: debugger_onDetach_def sendToServer_def inv_def registry_ok_def
        listeners_installed_def)

lemma inv_tabs_onRemoved: "inv s \<Longrightarrow> inv (tabs_onRemoved s t)"
  by (simp add: tabs_onRemoved_def sendToServer_def inv_def registry_ok_def
        listeners_installed_def)

lemma inv_step: "inv s \<Longrightarrow> inv (step env s e)"
  by (cases e)
     (simp_all add: inv_connectToServer inv_ws_onopen inv_ws_onclose inv_ws_onmessage
        inv_keepAlive debugger_onEvent_def inv_debugger_onEvent_fold inv_debugger_onDetach
        inv_tabs_onRemoved)

lemma inv_run: "inv s \<Longrightarrow> inv (run env s evs)"
  unfolding run_def by (induction evs arbitrary: s) (simp_all add: inv_step)

lemma reachable_inv: "inv (run env initial_state evs)"
  by (rule inv_run [OF inv_initial])

section \<open>The concrete states\<close>

lemma open_state_simps:
  "serverWs open_state = Some OPEN" "activeSessions open_state = Map.empty"
  "cdpEventListeners open_state = Map.empty" "sent open_state = [EXTENSION_READY]"
  "onEvent open_state = []" "calls open_state = [NewWebSocket]" "reconnectAttempts open_state = 0"
  "scheduled open_state = []"
  by (simp_all add: open_state_def run_def connectToServer_def ws_onopen_def sendToServer_def
        chrome_def chrome_ok_def initial_state_def)

lemma attached_state_simps:
  "serverWs attached_state = Some OPEN" "is_attached attached_state (JNum 7)"
  "cdpEventListeners attached_state = Map.empty" "sent attached_state = [EXTENSION_READY]"
  "onEvent attached_state = [JNum 7]" "calls attached_state = [NewWebSocket, DebuggerAttach (JNum 7)]"
  by (simp_all add: attached_state_def attachDebugger_def is_attached_def open_state_simps
        setupCDPEventForwarding_def chrome_def chrome_ok_def Let_def)

lemma open_state_inv: "inv open_state"
  unfolding open_state_def by (rule reachable_inv)

lemma attached_state_inv: "inv attached_state"
  unfolding attached_state_def by (rule inv_attachDebugger [OF open_state_inv])

lemma subscribed_state_inv: "inv subscribed_state"
  unfolding subscribed_state_def by (rule inv_register [OF attached_state_inv])

lemma subscribed_state_simps:
  "serverWs subscribed_state = Some OPEN" "is_attached subscribed_state (JNum 7)"
  "subscribers subscribed_state (JNum 7) (JStr ''load'') = [JStr ''S'']"
  "subscribers subscribed_state (JNum 7) (JStr ''paint'') = []"
  "sent subscribed_state = [EXTENSION_READY]"
  "onEvent subscribed_state = [JNum 7]"
  using attached_state_simps
  by (simp_all add: subscribed_state_def registerCDPListener_def is_attached_def
        subscribers_def set_add_def Let_def)

section \<open>Attaching and detaching\<close>

text \<open>
  Claim C3. On a target whose session is attached, \<^verbatim>\<open>attachDebugger\<close> returns
  \<^verbatim>\<open>{attached: true, alreadyAttached: true}\<close> and leaves the whole state as it was, the
  trace of browser calls included: no \<^verbatim>\<open>chrome.debugger.attach\<close> is issued. This holds
  for the call made after any number \<open>n\<close> of earlier attach calls on that target.
\<close>

theorem attachDebugger_already_attached:
  "is_attached s tabId \<Longrightarrow>
   attachDebugger env (((\<lambda>s'. fst (attachDebugger env s' tabId)) ^^ n) s) tabId =
     (s, Inr (JObj [(''attached'', JPrim (JBool True)), (''alreadyAttached'', JPrim (JBool True))]))"
proof -
  assume a: "is_attached s tabId"
  have one: "attachDebugger env s tabId =
     (s, Inr (JObj [(''attached'', JPrim (JBool True)), (''alreadyAttached'', JPrim (JBool True))]))"
    using a by (simp add: attachDebugger_def obj_def)
  have "((\<lambda>s'. fst (attachDebugger env s' tabId)) ^^ n) s = s"
    by (induction n) (simp_all add: one)
  then show ?thesis by (simp add: one)
qed

theorem attachDebugger_already_attached_witness:
  "is_attached attached_state (JNum 7) \<and>
   attachDebugger chrome_ok (fst (attachDebugger chrome_ok attached_state (JNum 7))) (JNum 7) =
     (attached_state, Inr (JObj [(''attached'', JPrim (JBool True)), (''alreadyAttached'', JPrim (JBool True))]))
   \<and> calls attached_state = [NewWebSocket, DebuggerAttach (JNum 7)]"
  using attachDebugger_already_attached [of attached_state "JNum 7" chrome_ok 1]
  by (simp add: attached_state_simps)

text \<open>
  Claim C4, as stated: \<^verbatim>\<open>detachDebugger\<close> on a target that is not attached returns
  \<^verbatim>\<open>{detached: false, reason: "not attached"}\<close>. The script's reason string is
  \<^verbatim>\<open>'Not attached'\<close>, with a capital N, so the stated value is not what is returned.
\<close>

theorem detachDebugger_reason_counterexample:
  "\<not> is_attached initial_state (JNum 7) \<and>
   snd (detachDebugger chrome_ok initial_state (JNum 7)) \<noteq>
     Inr (JObj [(''detached'', JPrim (JBool False)), (''reason'', JPrim (JStr ''not attached''))])"
  by (simp add: detachDebugger_def obj_def is_attached_def initial_state_def)

text \<open>
  Claim C4, amended. On a target that is not attached (one that never was included),
  \<^verbatim>\<open>detachDebugger\<close> does not fail: it returns
  \<^verbatim>\<open>{detached: false, reason: "Not attached"}\<close> and leaves the whole state, sessions and
  subscriptions included, as it was.
\<close>

theorem detachDebugger_not_attached:
  "\<not> is_attached s tabId \<Longrightarrow>
   detachDebugger env s tabId =
     (s, Inr (JObj [(''detached'', JPrim (JBool False)), (''reason'', JPrim (JStr ''Not attached''))]))"
  by (simp add: detachDebugger_def obj_def)

theorem detachDebugger_not_attached_witness:
  "\<not> is_attached initial_state (JNum 7) \<and>
   detachDebugger chrome_ok initial_state (JNum 7) =
     (initial_state, Inr (JObj [(''detached'', JPrim (JBool False)), (''reason'', JPrim (JStr ''Not attached''))]))"
  using detachDebugger_not_attached [of initial_state "JNum 7" chrome_ok]
  by (simp add: is_attached_def initial_state_def)

section \<open>Commands against a target that is not attached\<close>

text \<open>
  Claim C2, as stated: a CDP command against a target with no attached session fails
  with a not-attached error instead of being executed. In the browser where every call
  succeeds, the command against the unattached tab 7 is executed and succeeds:
  \<^verbatim>\<open>sendCDPCommand\<close> attaches the debugger first.
\<close>

theorem sendCDPCommand_unattached_counterexample:
  "\<not> is_attached open_state (JNum 7) \<and>
   snd (sendCDPCommand chrome_ok open_state (JNum 7) (JStr ''Page.enable'') (JPrim JUndefined)) = Inr (JObj []) \<and>
   calls (fst (sendCDPCommand chrome_ok open_state (JNum 7) (JStr ''Page.enable'') (JPrim JUndefined))) =
     [NewWebSocket, DebuggerAttach (JNum 7), DebuggerSendCommand (JNum 7) (JStr ''Page.enable'') (JObj [])]"
  by (simp add: sendCDPCommand_def attachDebugger_def is_attached_def open_state_simps
        setupCDPEventForwarding_def chrome_def chrome_ok_def Let_def)

text \<open>
  Claim C2, amended. A CDP command against a target with no attached session first
  attaches the debugger to it. If that attach fails, the command is not sent to the
  browser, the request fails with the attach error and no session is created. If it
  succeeds, the target is left attached, the command is sent, and the command's outcome
  is the request's outcome.
\<close>

theorem sendCDPCommand_attaches_on_demand:
  assumes "\<not> is_attached s tabId"
  shows "case debugger_attach env (calls s) tabId of
           Inl e \<Rightarrow>
             snd (sendCDPCommand env s tabId method params) = Inl e \<and>
             calls (fst (sendCDPCommand env s tabId method params)) = calls s @ [DebuggerAttach tabId] \<and>
             activeSessions (fst (sendCDPCommand env s tabId method params)) = activeSessions s
         | Inr _ \<Rightarrow>
             (let p = (if params = JPrim JUndefined then JObj [] else params) in
              snd (sendCDPCommand env s tabId method params) =
                debugger_sendCommand env (calls s @ [DebuggerAttach tabId]) tabId method p \<and>
              calls (fst (sendCDPCommand env s tabId method params)) =
                calls s @ [DebuggerAttach tabId, DebuggerSendCommand tabId method p] \<and>
              is_attached (fst (sendCDPCommand env s tabId method params)) tabId)"
  using assms
  by (simp add: sendCDPCommand_def attachDebugger_def is_attached_def
        setupCDPEventForwarding_def chrome_def Let_def split: sum.split option.split)

theorem sendCDPCommand_attaches_on_demand_witness:
  "\<not> is_attached open_state (JNum 7) \<and>
   is_attached (fst (sendCDPCommand chrome_ok open_state (JNum 7) (JStr ''Page.enable'') (JPrim JUndefined))) (JNum 7)"
  using sendCDPCommand_attaches_on_demand [of open_state "JNum 7" chrome_ok "JStr ''Page.enable''" "JPrim JUndefined"]
  by (simp add: is_attached_def open_state_simps chrome_ok_def)

section \<open>The subscription registry\<close>

text \<open>
  Claim C8. \<^verbatim>\<open>registerCDPListener\<close> and \<^verbatim>\<open>unregisterCDPListener\<close> are idempotent for
  every (target, event name, listener id): registering a second time gives the registry
  that registering once gives, unregistering a second time gives the registry that
  unregistering once gives, both return their success object and never fail, and in a
  registry that stores no empty subscriber set (as every reachable registry does)
  unregistering a listener that is not a member leaves the whole state unchanged.
\<close>

theorem subscribe_unsubscribe_idempotent:
  "registerCDPListener (fst (registerCDPListener s tabId eventName listenerId)) tabId eventName listenerId
     = registerCDPListener s tabId eventName listenerId
   \<and> snd (registerCDPListener s tabId eventName listenerId) = Inr (JObj [(''registered'', JPrim (JBool True))])
   \<and> unregisterCDPListener (fst (unregisterCDPListener s tabId eventName listenerId)) tabId eventName listenerId
     = unregisterCDPListener s tabId eventName listenerId
   \<and> snd (unregisterCDPListener s tabId eventName listenerId) = Inr (JObj [(''unregistered'', JPrim (JBool True))])
   \<and> (registry_ok s \<and> listenerId \<notin> set (subscribers s tabId eventName) \<longrightarrow>
        fst (unregisterCDPListener s tabId eventName listenerId) = s)"
proof (intro conjI impI)
  show "registerCDPListener (fst (registerCDPListener s tabId eventName listenerId)) tabId eventName listenerId
     = registerCDPListener s tabId eventName listenerId"
    by (simp add: registerCDPListener_def Let_def set_add_idem)
  show "snd (registerCDPListener s tabId eventName listenerId) = Inr (JObj [(''registered'', JPrim (JBool True))])"
    by (simp add: registerCDPListener_def Let_def obj_def)
  show "unregisterCDPListener (fst (unregisterCDPListener s tabId eventName listenerId)) tabId eventName listenerId
     = unregisterCDPListener s tabId eventName listenerId"
    by (simp add: unregisterCDPListener_def Let_def set_delete_def split: option.split)
  show "snd (unregisterCDPListener s tabId eventName listenerId) = Inr (JObj [(''unregistered'', JPrim (JBool True))])"
    by (simp add: unregisterCDPListener_def Let_def obj_def)
  show "fst (unregisterCDPListener s tabId eventName listenerId) = s"
    if "registry_ok s \<and> listenerId \<notin> set (subscribers s tabId eventName)"
    using that
    by (auto simp: unregisterCDPListener_def Let_def set_delete_def subscribers_def registry_ok_def
          map_upd_triv split: option.split)
qed

theorem subscribe_unsubscribe_idempotent_witness:
  "registry_ok subscribed_state \<and> JStr ''R'' \<notin> set (subscribers subscribed_state (JNum 7) (JStr ''load'')) \<and>
   fst (unregisterCDPListener subscribed_state (JNum 7) (JStr ''load'') (JStr ''R'')) = subscribed_state"
proof -
  have r: "registry_ok subscribed_state"
    using subscribed_state_inv by (simp add: inv_def)
  have n: "JStr ''R'' \<notin> set (subscribers subscribed_state (JNum 7) (JStr ''load''))"
    by (simp add: subscribed_state_simps)
  from subscribe_unsubscribe_idempotent [of subscribed_state "JNum 7" "JStr ''load''" "JStr ''R''"] r n
  show ?thesis by blast
qed

text \<open>
  Claim C9. Whenever the session of a target is destroyed, by a \<^verbatim>\<open>detachDebugger\<close>
  whose \<^verbatim>\<open>chrome.debugger.detach\<close> succeeds, by the \<^verbatim>\<open>chrome.debugger.onDetach\<close>
  notification, or by the \<^verbatim>\<open>chrome.tabs.onRemoved\<close> notification of the tab closing,
  the registry entry of that target is deleted with it: afterwards no subscriber is
  registered for any event name of that target.
\<close>

theorem session_destroyed_removes_subscriptions:
  "(is_attached s tabId \<and> debugger_detach env (calls s) tabId = Inr () \<longrightarrow>
      snd (detachDebugger env s tabId) = Inr (JObj [(''detached'', JPrim (JBool True))]) \<and>
      activeSessions (fst (detachDebugger env s tabId)) tabId = None \<and>
      cdpEventListeners (fst (detachDebugger env s tabId)) tabId = None \<and>
      subscribers (fst (detachDebugger env s tabId)) tabId eventName = [])
   \<and> (activeSessions s tabId \<noteq> None \<longrightarrow>
      activeSessions (debugger_onDetach s tabId reason) tabId = None \<and>
      cdpEventListeners (debugger_onDetach s tabId reason) tabId = None \<and>
      subscribers (debugger_onDetach s tabId reason) tabId eventName = [])
   \<and> (activeSessions s tabId \<noteq> None \<longrightarrow>
      activeSessions (tabs_onRemoved s tabId) tabId = None \<and>
      cdpEventListeners (tabs_onRemoved s tabId) tabId = None \<and>
      subscribers (tabs_onRemoved s tabId) tabId eventName = [])"
  by (simp add: detachDebugger_def debugger_onDetach_def tabs_onRemoved_def sendToServer_def
        chrome_def subscribers_def obj_def)

theorem session_destroyed_removes_subscriptions_witness:
  "is_attached subscribed_state (JNum 7) \<and> debugger_detach chrome_ok (calls subscribed_state) (JNum 7) = Inr () \<and>
   activeSessions subscribed_state (JNum 7) \<noteq> None \<and>
   subscribers subscribed_state (JNum 7) (JStr ''load'') = [JStr ''S''] \<and>
   subscribers (fst (detachDebugger chrome_ok subscribed_state (JNum 7))) (JNum 7) (JStr ''load'') = [] \<and>
   subscribers (debugger_onDetach subscribed_state (JNum 7) (JPrim (JStr ''target_closed''))) (JNum 7) (JStr ''load'') = [] \<and>
   subscribers (tabs_onRemoved subscribed_state (JNum 7)) (JNum 7) (JStr ''load'') = []"
  using session_destroyed_removes_subscriptions
          [of subscribed_state "JNum 7" chrome_ok "JStr ''load''" "JPrim (JStr ''target_closed'')"]
    subscribed_state_simps(2)
  by (auto simp: subscribed_state_simps chrome_ok_def is_attached_def split: option.splits)

section \<open>Reconnecting with backoff\<close>

lemma handleServerMessage_channel:
  "serverWs (handleServerMessage env s m) = serverWs s \<and>
   reconnectAttempts (handleServerMessage env s m) = reconnectAttempts s \<and>
   scheduled (handleServerMessage env s m) = scheduled s"
proof (cases "handleServerMessage_switch env s m")
  case None
  then show ?thesis by (simp add: handleServerMessage_def)
next
  case (Some p)
  obtain s1 r where p: "p = (s1, r)" by (cases p)
  from channel_kept_switch [OF Some [unfolded p]] show ?thesis
    using Some p by (cases r) (simp_all add: handleServerMessage_def sendToServer_def channel_kept_def)
qed

lemma cdp_listener_channel:
  "serverWs (cdp_listener t s src m p) = serverWs s \<and>
   reconnectAttempts (cdp_listener t s src m p) = reconnectAttempts s \<and>
   scheduled (cdp_listener t s src m p) = scheduled s \<and>
   cdpEventListeners (cdp_listener t s src m p) = cdpEventListeners s \<and>
   onEvent (cdp_listener t s src m p) = onEvent s"
  by (simp add: cdp_listener_def sendToServer_def split: option.split)

lemma debugger_onEvent_fold_channel:
  "serverWs (foldl (\<lambda>s' t. cdp_listener t s' src m p) s ts) = serverWs s \<and>
   reconnectAttempts (foldl (\<lambda>s' t. cdp_listener t s' src m p) s ts) = reconnectAttempts s \<and>
   scheduled (foldl (\<lambda>s' t. cdp_listener t s' src m p) s ts) = scheduled s"
  by (induction ts arbitrary: s) (simp_all add: cdp_listener_channel)

lemma step_backoff:
  "e \<noteq> WsOpen \<Longrightarrow> e \<noteq> WsClose \<Longrightarrow>
   reconnectAttempts (step env s e) = reconnectAttempts s \<and> scheduled (step env s e) = scheduled s"
proof (cases e)
  case (WsMessage frame)
  then show ?thesis
    by (cases frame) (simp_all add: ws_onmessage_def handleServerMessage_channel)
next
  case (DebuggerEvent t m p)
  then show ?thesis by (simp add: debugger_onEvent_def debugger_onEvent_fold_channel)
qed (simp_all add: connectToServer_def chrome_def keepAlive_def sendToServer_def
       debugger_onDetach_def tabs_onRemoved_def split: sum.split)

lemma ws_onclose_backoff:
  "reconnectAttempts (ws_onclose s) =
     (if reconnectAttempts s < MAX_RECONNECT_ATTEMPTS then Suc (reconnectAttempts s) else reconnectAttempts s)
   \<and> scheduled (ws_onclose s) =
     (if reconnectAttempts s < MAX_RECONNECT_ATTEMPTS
      then scheduled s @ [reconnect_delay (Suc (reconnectAttempts s))] else scheduled s)"
  by (simp add: ws_onclose_def Let_def)

lemma backoff_run:
  "WsOpen \<notin> set evs \<Longrightarrow> reconnectAttempts s \<le> MAX_RECONNECT_ATTEMPTS \<Longrightarrow>
   reconnectAttempts (run env s evs) =
     min (reconnectAttempts s + count_list evs WsClose) MAX_RECONNECT_ATTEMPTS \<and>
   scheduled (run env s evs) =
     scheduled s @ map reconnect_delay
       [Suc (reconnectAttempts s) ..<
        Suc (min (reconnectAttempts s + count_list evs WsClose) MAX_RECONNECT_ATTEMPTS)]"
proof (induction evs arbitrary: s)
  case Nil
  then show ?case by (simp add: run_def)
next
  case (Cons e evs)
  let ?a = "reconnectAttempts s" and ?k = "count_list evs WsClose"
  have run_Cons: "run env s (e # evs) = run env (step env s e) evs"
    by (simp add: run_def)
  have no: "WsOpen \<notin> set evs" and ne: "e \<noteq> WsOpen"
    using Cons.prems(1) by auto
  show ?case
  proof (cases "e = WsClose")
    case True
    then have cnt: "count_list (e # evs) WsClose = Suc ?k" by simp
    show ?thesis
    proof (cases "?a < MAX_RECONNECT_ATTEMPTS")
      case lt: True
      have a: "reconnectAttempts (step env s e) = Suc ?a"
        and b: "scheduled (step env s e) = scheduled s @ [reconnect_delay (Suc ?a)]"
        using True lt by (simp_all add: ws_onclose_backoff)
      have le: "reconnectAttempts (step env s e) \<le> MAX_RECONNECT_ATTEMPTS"
        using a lt by simp
      have e1: "Suc ?a + ?k = ?a + Suc ?k" by simp
      have "Suc ?a < Suc (min (?a + Suc ?k) MAX_RECONNECT_ATTEMPTS)"
        using lt by simp
      then have u: "[Suc ?a ..< Suc (min (?a + Suc ?k) MAX_RECONNECT_ATTEMPTS)]
                  = Suc ?a # [Suc (Suc ?a) ..< Suc (min (?a + Suc ?k) MAX_RECONNECT_ATTEMPTS)]"
        by (rule upt_conv_Cons)
      from Cons.IH [OF no le, unfolded a b e1] show ?thesis
        unfolding run_Cons cnt u by (simp del: upt_Suc)
    next
      case ge: False
      have a: "reconnectAttempts (step env s e) = ?a"
        and b: "scheduled (step env s e) = scheduled s"
        using True ge by (simp_all add: ws_onclose_backoff)
      have le: "reconnectAttempts (step env s e) \<le> MAX_RECONNECT_ATTEMPTS"
        using a Cons.prems(2) by simp
      have m: "min (?a + ?k) MAX_RECONNECT_ATTEMPTS = min (?a + Suc ?k) MAX_RECONNECT_ATTEMPTS"
        using ge by simp
      from Cons.IH [OF no le, unfolded a b m] show ?thesis
        unfolding run_Cons cnt by (simp del: upt_Suc)
    qed
  next
    case False
    then have cnt: "count_list (e # evs) WsClose = ?k" by simp
    have a: "reconnectAttempts (step env s e) = ?a"
      and b: "scheduled (step env s e) = scheduled s"
      using step_backoff [OF ne False, of env s] by simp_all
    have le: "reconnectAttempts (step env s e) \<le> MAX_RECONNECT_ATTEMPTS"
      using a Cons.prems(2) by simp
    from Cons.IH [OF no le, unfolded a b] show ?thesis
      unfolding run_Cons cnt by (simp del: upt_Suc)
  qed
qed

lemma reconnect_delay_mono: "i \<le> j \<Longrightarrow> reconnect_delay i \<le> reconnect_delay j"
  by (simp add: reconnect_delay_def min_le_iff_disj)

text \<open>
  Claim C7. In a run of events with no successful open, starting with the attempt
  counter at zero, the delays handed to \<^verbatim>\<open>setTimeout(connectToServer, delay)\<close> are
  exactly \<open>min (1000 * 2 ^ i) 10000\<close> for the attempts \<open>i = 1, 2, ...\<close> up to the number
  of closes or \<^verbatim>\<open>MAX_RECONNECT_ATTEMPTS\<close>, whichever is smaller. That sequence is
  non-decreasing and bounded by the cap of 10000 ms. Once the counter has reached
  \<^verbatim>\<open>MAX_RECONNECT_ATTEMPTS\<close>, no further reconnect is scheduled and the counter stays,
  whatever events other than a successful open follow.
\<close>

theorem reconnect_backoff:
  "(reconnectAttempts s = 0 \<and> WsOpen \<notin> set evs \<longrightarrow>
      scheduled (run env s evs) =
        scheduled s @ map (\<lambda>i. min (1000 * 2 ^ i) 10000)
          [1 ..< Suc (min (count_list evs WsClose) MAX_RECONNECT_ATTEMPTS)])
   \<and> sorted (map (\<lambda>i. min (1000 * 2 ^ i) (10000::nat)) [1 ..< Suc k])
   \<and> (\<forall>d \<in> set (map (\<lambda>i. min (1000 * 2 ^ i) (10000::nat)) [1 ..< Suc k]). d \<le> 10000)
   \<and> (reconnectAttempts s = MAX_RECONNECT_ATTEMPTS \<and> WsOpen \<notin> set evs \<longrightarrow>
      scheduled (run env s evs) = scheduled s \<and>
      reconnectAttempts (run env s evs) = MAX_RECONNECT_ATTEMPTS)"
proof (intro conjI impI)
  assume a: "reconnectAttempts s = 0 \<and> WsOpen \<notin> set evs"
  have d: "reconnect_delay = (\<lambda>i. min (1000 * 2 ^ i) 10000)"
    by (rule ext) (simp add: reconnect_delay_def)
  from a backoff_run [of evs s env]
  show "scheduled (run env s evs) =
        scheduled s @ map (\<lambda>i. min (1000 * 2 ^ i) 10000)
          [1 ..< Suc (min (count_list evs WsClose) MAX_RECONNECT_ATTEMPTS)]"
    by (simp add: d)
next
  have "sorted_wrt (\<lambda>i j. min (1000 * 2 ^ i) (10000::nat) \<le> min (1000 * 2 ^ j) 10000) [1 ..< Suc k]"
    by (rule sorted_wrt_mono_rel [OF _ sorted_upt]) (simp add: min_le_iff_disj)
  then show "sorted (map (\<lambda>i. min (1000 * 2 ^ i) (10000::nat)) [1 ..< Suc k])"
    by (simp add: sorted_map)
next
  show "\<forall>d \<in> set (map (\<lambda>i. min (1000 * 2 ^ i) (10000::nat)) [1 ..< Suc k]). d \<le> 10000"
    by simp
next
  assume a: "reconnectAttempts s = MAX_RECONNECT_ATTEMPTS \<and> WsOpen \<notin> set evs"
  from a backoff_run [of evs s env]
  show "scheduled (run env s evs) = scheduled s" by simp
  from a backoff_run [of evs s env]
  show "reconnectAttempts (run env s evs) = MAX_RECONNECT_ATTEMPTS" by simp
qed

theorem reconnect_backoff_witness:
  "reconnectAttempts open_state = 0 \<and>
   WsOpen \<notin> set [WsClose, TimerFired, WsClose, TimerFired, WsClose, WsClose, WsClose, WsClose] \<and>
   scheduled (run chrome_ok open_state
      [WsClose, TimerFired, WsClose, TimerFired, WsClose, WsClose, WsClose, WsClose])
     = [2000, 4000, 8000, 10000, 10000]"
proof -
  let ?evs = "[WsClose, TimerFired, WsClose, TimerFired, WsClose, WsClose, WsClose, WsClose]"
  have h: "reconnectAttempts open_state = 0 \<and> WsOpen \<notin> set ?evs"
    by (simp add: open_state_simps)
  have c: "count_list ?evs WsClose = 6"
    by simp
  have v: "map (\<lambda>i. min (1000 * 2 ^ i) (10000::nat)) [1 ..< Suc (min 6 MAX_RECONNECT_ATTEMPTS)]
             = [2000, 4000, 8000, 10000, 10000]"
    by (simp add: MAX_RECONNECT_ATTEMPTS_def upt_conv_Cons del: upt_Suc)
  have "scheduled (run chrome_ok open_state ?evs) =
          scheduled open_state @ map (\<lambda>i. min (1000 * 2 ^ i) 10000)
            [1 ..< Suc (min (count_list ?evs WsClose) MAX_RECONNECT_ATTEMPTS)]"
    by (rule reconnect_backoff [of open_state ?evs chrome_ok 0, THEN conjunct1, THEN mp, OF h])
  then show ?thesis
    using h unfolding c v by (simp add: open_state_simps)
qed

section \<open>The dispatcher\<close>

lemma switch_unknown:
  "msg_type m \<notin> JStr ` set known_types \<Longrightarrow>
   handleServerMessage_switch env s m = Some (s, Inl (''Unknown message type: '' @ template (msg_type m)))"
  by (simp add: handleServerMessage_switch_def known_types_def Let_def)









text \<open>
  Claim C6, as stated: an envelope of unknown type (or a malformed one) is fatal to
  the connection and triggers a disconnect instead of an ordinary per-request failure.
  On an open socket the frame of type \<^verbatim>\<open>BOGUS\<close> with id 3 is answered by a failure
  \<^verbatim>\<open>RESPONSE\<close> with id 3, and the socket is still open afterwards.
\<close>

theorem unknown_type_keeps_connection_counterexample:
  "serverWs open_state = Some OPEN \<and>
   msg_type (request (JPrim (JNum 3)) ''BOGUS'' JUndefined) \<notin> JStr ` set known_types \<and>
   serverWs (ws_onmessage chrome_ok open_state (Some (request (JPrim (JNum 3)) ''BOGUS'' JUndefined))) = Some OPEN \<and>
   sent (ws_onmessage chrome_ok open_state (Some (request (JPrim (JNum 3)) ''BOGUS'' JUndefined))) =
     [EXTENSION_READY, RESPONSE (JPrim (JNum 3)) (Inl ''Unknown message type: BOGUS'')]"
  by (simp add: ws_onmessage_def handleServerMessage_def handleServerMessage_switch_def Let_def
        request_def known_types_def sendToServer_def open_state_simps)

text \<open>
  Claim C6, amended. An envelope whose type is none of the sixteen known ones is an
  ordinary per-request failure: the script logs it and sends a \<^verbatim>\<open>RESPONSE\<close> with the
  request's id, \<^verbatim>\<open>success: false\<close> and the error \<^verbatim>\<open>Unknown message type: <type>\<close>; the
  socket, the sessions and the subscriptions are unchanged. A frame that cannot be
  parsed is logged and ignored, and changes nothing else.
\<close>

theorem unknown_type_is_request_failure:
  "msg_type m \<notin> JStr ` set known_types \<Longrightarrow>
   handleServerMessage env s m =
     sendToServer
       (s\<lparr>console_error := console_error s @ [''[Stagehand] Error handling '' @ template (msg_type m) @ '':'']\<rparr>)
       (RESPONSE (msg_id m) (Inl (''Unknown message type: '' @ template (msg_type m))))
   \<and> serverWs (handleServerMessage env s m) = serverWs s
   \<and> activeSessions (handleServerMessage env s m) = activeSessions s
   \<and> cdpEventListeners (handleServerMessage env s m) = cdpEventListeners s
   \<and> (serverWs s = Some OPEN \<longrightarrow>
        sent (handleServerMessage env s m) =
          sent s @ [RESPONSE (msg_id m) (Inl (''Unknown message type: '' @ template (msg_type m)))])
   \<and> ws_onmessage env s None =
        s\<lparr>console_error := console_error s @ [''[Stagehand] Error handling server message:'']\<rparr>"
  by (simp add: handleServerMessage_def switch_unknown sendToServer_def ws_onmessage_def)

theorem unknown_type_is_request_failure_witness:
  "msg_type (request (JPrim (JNum 3)) ''BOGUS'' JUndefined) \<notin> JStr ` set known_types \<and>
   sent (handleServerMessage chrome_ok open_state (request (JPrim (JNum 3)) ''BOGUS'' JUndefined)) =
     [EXTENSION_READY, RESPONSE (JPrim (JNum 3)) (Inl ''Unknown message type: BOGUS'')]"
proof -
  have h: "msg_type (request (JPrim (JNum 3)) ''BOGUS'' JUndefined) \<notin> JStr ` set known_types"
    by (simp add: request_def known_types_def)
  have f: "msg_id (request (JPrim (JNum 3)) ''BOGUS'' JUndefined) = JPrim (JNum 3)"
    "template (msg_type (request (JPrim (JNum 3)) ''BOGUS'' JUndefined)) = ''BOGUS''"
    by (simp_all add: request_def)
  from unknown_type_is_request_failure [OF h, of chrome_ok open_state]
  have "serverWs open_state = Some OPEN \<longrightarrow>
        sent (handleServerMessage chrome_ok open_state (request (JPrim (JNum 3)) ''BOGUS'' JUndefined)) =
          sent open_state @ [RESPONSE (JPrim (JNum 3)) (Inl (''Unknown message type: '' @ ''BOGUS''))]"
    unfolding f by blast
  with h show ?thesis by (simp add: open_state_simps)
qed

section \<open>Event forwarding\<close>










section \<open>Sending while the socket is not open\<close>

text \<open>No handler reads the console: states that differ in the console lines only stay
  so, and give the same results, under every handler and every run of events.\<close>

lemma agree_sendToServer: "agree s s' \<Longrightarrow> agree (sendToServer s m) (sendToServer s' m)"
  by (simp add: agree_def sendToServer_def)

lemma agree_console: "agree s s' \<Longrightarrow> agree (s\<lparr>console_error := c\<rparr>) (s'\<lparr>console_error := c'\<rparr>)"
  by (simp add: agree_def)

lemma agree_getActiveTab: "agree s s' \<Longrightarrow> agree_result (getActiveTab env s) (getActiveTab env s')"
  by (simp add: agree_result_def agree_def getActiveTab_def chrome_def split: sum.split list.split)

lemma agree_attachDebugger:
  "agree s s' \<Longrightarrow> agree_result (attachDebugger env s t) (attachDebugger env s' t)"
  by (simp add: agree_result_def agree_def attachDebugger_def is_attached_def
        setupCDPEventForwarding_def chrome_def Let_def split: sum.split option.split)

lemma agree_detachDebugger:
  "agree s s' \<Longrightarrow> agree_result (detachDebugger env s t) (detachDebugger env s' t)"
  by (simp add: agree_result_def agree_def detachDebugger_def is_attached_def chrome_def
        split: sum.split)

lemma agree_sendCDPCommand:
  "agree s s' \<Longrightarrow> agree_result (sendCDPCommand env s t m p) (sendCDPCommand env s' t m p)"
  by (simp add: agree_result_def agree_def sendCDPCommand_def attachDebugger_def is_attached_def
        setupCDPEventForwarding_def chrome_def Let_def split: sum.split option.split prod.split)

lemma agree_evaluateScript:
  "agree s s' \<Longrightarrow> agree_result (evaluateScript env s t sc a) (evaluateScript env s' t sc a)"
  by (simp add: agree_result_def agree_def evaluateScript_def chrome_def Let_def
        split: sum.split list.split)

lemma agree_navigateTo:
  "agree s s' \<Longrightarrow> agree_result (navigateTo env s t u opts) (navigateTo env s' t u opts)"
  by (simp add: agree_result_def agree_def navigateTo_def waitForNavigation_def chrome_def Let_def
        split: sum.split prod.split)

lemma agree_createTab: "agree s s' \<Longrightarrow> agree_result (createTab env s u) (createTab env s' u)"
  by (simp add: agree_result_def agree_def createTab_def chrome_def Let_def split: sum.split)

lemma agree_closeTab: "agree s s' \<Longrightarrow> agree_result (closeTab env s t) (closeTab env s' t)"
  by (simp add: agree_result_def agree_def closeTab_def detachDebugger_def is_attached_def chrome_def
        split: sum.split prod.split)

lemma agree_getTabInfo: "agree s s' \<Longrightarrow> agree_result (getTabInfo env s t) (getTabInfo env s' t)"
  by (simp add: agree_result_def agree_def getTabInfo_def chrome_def split: sum.split)

lemma agree_getAllTabs: "agree s s' \<Longrightarrow> agree_result (getAllTabs env s) (getAllTabs env s')"
  by (simp add: agree_result_def agree_def getAllTabs_def chrome_def split: sum.split)

lemma agree_setCookies_loop:
  "agree s s' \<Longrightarrow> agree_result (setCookies_loop env s cs rs) (setCookies_loop env s' cs rs)"
proof (induction cs arbitrary: s s' rs)
  case Nil
  then show ?case by (simp add: agree_result_def)
next
  case (Cons c cs)
  have a: "agree (s\<lparr>calls := calls s' @ [CookiesSet c]\<rparr>) (s'\<lparr>calls := calls s' @ [CookiesSet c]\<rparr>)"
    using Cons.prems by (simp add: agree_def)
  have c: "calls s = calls s'" using Cons.prems by (simp add: agree_def)
  show ?case
    by (simp add: chrome_def c Cons.IH [OF a] split: sum.split)
qed

lemma agree_setCookies:
  "agree s s' \<Longrightarrow> agree_result (setCookies env s cookies) (setCookies env s' cookies)"
proof (cases "iterate cookies")
  case (Inl e)
  assume "agree s s'"
  then show ?thesis using Inl by (simp add: setCookies_def agree_result_def)
next
  case (Inr cs)
  assume "agree s s'"
  from agree_setCookies_loop [OF this, of env cs "[]"] show ?thesis
    using Inr by (simp add: setCookies_def agree_result_def case_prod_unfold)
qed

lemma agree_getCookies: "agree s s' \<Longrightarrow> agree_result (getCookies env s u) (getCookies env s' u)"
  by (simp add: agree_result_def agree_def getCookies_def chrome_def)

lemma agree_injectScript:
  "agree s s' \<Longrightarrow> agree_result (injectScript env s t sc) (injectScript env s' t sc)"
  by (simp add: agree_result_def agree_def injectScript_def chrome_def Let_def split: sum.split)

lemma agree_register:
  "agree s s' \<Longrightarrow> agree_result (registerCDPListener s t e l) (registerCDPListener s' t e l)"
  by (simp add: agree_result_def agree_def registerCDPListener_def Let_def)

lemma agree_unregister:
  "agree s s' \<Longrightarrow> agree_result (unregisterCDPListener s t e l) (unregisterCDPListener s' t e l)"
  by (simp add: agree_result_def agree_def unregisterCDPListener_def Let_def split: option.split)

lemmas agree_handlers =
  agree_getActiveTab agree_attachDebugger agree_detachDebugger agree_sendCDPCommand
  agree_evaluateScript agree_navigateTo agree_createTab agree_closeTab agree_getTabInfo
  agree_getAllTabs agree_setCookies agree_getCookies agree_injectScript agree_register
  agree_unregister

lemma agree_switch:
  assumes "agree s s'"
  shows "case (handleServerMessage_switch env s m, handleServerMessage_switch env s' m) of
           (None, None) \<Rightarrow> True
         | (Some p, Some p') \<Rightarrow> agree_result p p'
         | _ \<Rightarrow> False"
  using agree_handlers [OF assms] assms
  by (simp add: handleServerMessage_switch_def Let_def agree_result_def)

lemma agree_handleServerMessage:
  assumes "agree s s'"
  shows "agree (handleServerMessage env s m) (handleServerMessage env s' m)"
  using agree_switch [OF assms, of env m] assms
  by (auto simp: handleServerMessage_def agree_result_def split: option.splits sum.splits
        intro!: agree_sendToServer agree_console)

lemma agree_cdp_listener: "agree s s' \<Longrightarrow> agree (cdp_listener t s src m p) (cdp_listener t s' src m p)"
  by (simp add: cdp_listener_def agree_def sendToServer_def split: option.split)

lemma agree_onEvent_fold:
  "agree s s' \<Longrightarrow>
   agree (foldl (\<lambda>x t. cdp_listener t x src m p) s ts) (foldl (\<lambda>x t. cdp_listener t x src m p) s' ts)"
  by (induction ts arbitrary: s s') (simp_all add: agree_cdp_listener)

lemma agree_step: "agree s s' \<Longrightarrow> agree (step env s e) (step env s' e)"
proof (cases e)
  case (WsMessage frame)
  assume "agree s s'"
  then show ?thesis
    using WsMessage by (cases frame) (simp_all add: ws_onmessage_def agree_console agree_handleServerMessage)
next
  case (DebuggerEvent t m p)
  assume a: "agree s s'"
  then have "onEvent s = onEvent s'" by (simp add: agree_def)
  then show ?thesis
    using DebuggerEvent agree_onEvent_fold [OF a] by (simp add: debugger_onEvent_def)
qed (simp_all add: agree_def connectToServer_def chrome_def ws_onopen_def ws_onclose_def
       keepAlive_def sendToServer_def debugger_onDetach_def tabs_onRemoved_def Let_def
       split: sum.split)

lemma agree_run: "agree s s' \<Longrightarrow> agree (run env s evs) (run env s' evs)"
  unfolding run_def by (induction evs arbitrary: s s') (simp_all add: agree_step)

text \<open>
  Claim C10. A message handed to \<^verbatim>\<open>sendToServer\<close> while the socket to the relay server
  is not in the \<^verbatim>\<open>OPEN\<close> state (no socket, or one that is connecting, closing or closed)
  is discarded: one line is written with \<^verbatim>\<open>console.error\<close>, nothing is handed to the
  socket, and no other part of the state changes. The message is not kept for later:
  whatever events follow, the frames sent are those that would have been sent had the
  message never been produced.
\<close>

theorem sendToServer_not_open:
  "serverWs s \<noteq> Some OPEN \<Longrightarrow>
   sendToServer s message =
     s\<lparr>console_error := console_error s @ [''[Stagehand] Cannot send message - server not connected'']\<rparr>
   \<and> sent (sendToServer s message) = sent s
   \<and> sent (run env (sendToServer s message) evs) = sent (run env s evs)"
proof -
  assume c: "serverWs s \<noteq> Some OPEN"
  then have "agree (sendToServer s message) s"
    by (simp add: sendToServer_def agree_def)
  then have "agree (run env (sendToServer s message) evs) (run env s evs)"
    by (rule agree_run)
  then have "sent (run env (sendToServer s message) evs) = sent (run env s evs)"
    by (simp add: agree_def)
  with c show ?thesis by (simp add: sendToServer_def)
qed

theorem sendToServer_not_open_witness:
  "serverWs initial_state \<noteq> Some OPEN \<and>
   sent (sendToServer initial_state PING) = [] \<and>
   sent (run chrome_ok (sendToServer initial_state PING) [Startup, WsOpen]) = [EXTENSION_READY]"
proof -
  have c: "serverWs initial_state \<noteq> Some OPEN"
    by (simp add: initial_state_def)
  have i: "sent initial_state = []"
    by (simp add: initial_state_def)
  have o: "sent (run chrome_ok initial_state [Startup, WsOpen]) = [EXTENSION_READY]"
    using open_state_simps(4) by (simp add: open_state_def)
  from sendToServer_not_open [OF c, of PING chrome_ok "[Startup, WsOpen]"]
  have "sent (sendToServer initial_state PING) = sent initial_state \<and>
        sent (run chrome_ok (sendToServer initial_state PING) [Startup, WsOpen]) =
          sent (run chrome_ok initial_state [Startup, WsOpen])"
    by blast
  with c i o show ?thesis by simp
qed

end
